theory Spec2Isabelle
  imports Complex_Main
begin

section \<open>Values\<close>

text \<open>
  The service (\<^verbatim>\<open>backend/app.py\<close>) is three Flask views over one MongoDB collection.
  The values that flow through it are the Python values that \<^verbatim>\<open>json.loads\<close> produces
  from a request body, and the documents of the collection, whose \<^verbatim>\<open>_id\<close> is an
  \<^verbatim>\<open>ObjectId\<close>, which is not a JSON value.

  A JSON number with a fraction or an exponent decodes to a Python float. Every finite
  double is a rational; \<^verbatim>\<open>json.loads\<close> also accepts \<^verbatim>\<open>NaN\<close> and the two infinities,
  which the JSON grammar does not have.

  A string is given by its UTF-8 bytes. A lone surrogate, which \<^verbatim>\<open>json.loads\<close> lets
  through from an escape such as \<^verbatim>\<open>\ud800\<close>, has no UTF-8 encoding; it appears here as
  the bytes of its generalised encoding, \<^verbatim>\<open>ED\<close> followed by a byte from \<^verbatim>\<open>A0\<close> to
  \<^verbatim>\<open>BF\<close> and one more.
\<close>

datatype pyfloat = Finite rat | PosInf | NegInf | NaN

datatype json =
    JNull
  | JBool bool
  | JInt int
  | JFloat pyfloat
  | JStr string
  | JArr "json list"
  | JObj "(string \<times> json) list"

text \<open>
  A top-level value of a Python \<^verbatim>\<open>dict\<close> handled by the views: a decoded JSON value, or
  the \<^verbatim>\<open>ObjectId\<close> that the driver generates (numbered here in order of creation).
  A dict keeps its insertion order, so it is an association list.
\<close>

datatype field = Val json | ObjectId nat

type_synonym document = "(string \<times> field) list"

text \<open>
  Exceptions that leave a view unhandled (the source has no \<^verbatim>\<open>try\<close>), and the
  response a view returns otherwise: a status code and a JSON body.
\<close>

datatype exn =
    BadRequest
  | UnsupportedMediaType
  | AttributeError
  | TypeError
  | ValueError
  | OverflowError
  | InvalidDocument
  | UnicodeEncodeError

datatype response = Response nat json

type_synonym outcome = "exn + response"

text \<open>
  What the framework makes of an outcome: \<^verbatim>\<open>BadRequest\<close> and
  \<^verbatim>\<open>UnsupportedMediaType\<close> are HTTP exceptions carrying the codes 400 and 415 and the
  framework's own error page; any other exception is answered with 500.
\<close>

fun http_status :: "outcome \<Rightarrow> nat" where
  "http_status (Inl BadRequest) = 400"
| "http_status (Inl UnsupportedMediaType) = 415"
| "http_status (Inl _) = 500"
| "http_status (Inr (Response code _)) = code"

section \<open>Python truthiness and dict access\<close>

text \<open>\<^verbatim>\<open>not x\<close> for the values \<^verbatim>\<open>json.loads\<close> returns: \<open>truthy x\<close> is \<^verbatim>\<open>bool(x)\<close>.\<close>

fun float_truthy :: "pyfloat \<Rightarrow> bool" where
  "float_truthy (Finite q) = (q \<noteq> 0)"
| "float_truthy PosInf = True"
| "float_truthy NegInf = True"
| "float_truthy NaN = True"

fun truthy :: "json \<Rightarrow> bool" where
  "truthy JNull = False"
| "truthy (JBool b) = b"
| "truthy (JInt i) = (i \<noteq> 0)"
| "truthy (JFloat x) = float_truthy x"
| "truthy (JStr s) = (s \<noteq> [])"
| "truthy (JArr xs) = (xs \<noteq> [])"
| "truthy (JObj kvs) = (kvs \<noteq> [])"

text \<open>
  \<^verbatim>\<open>req.get(key)\<close>: on a dict the value, or \<^verbatim>\<open>None\<close> when the key is absent; any other
  decoded value (\<^verbatim>\<open>None\<close>, a list, a string, a number) has no attribute \<^verbatim>\<open>get\<close>.
\<close>

fun py_get :: "json \<Rightarrow> string \<Rightarrow> exn + json" where
  "py_get (JObj kvs) key = Inr (case map_of kvs key of None \<Rightarrow> JNull | Some v \<Rightarrow> v)"
| "py_get _ key = Inl AttributeError"

section \<open>The framework: request bodies and responses\<close>

text \<open>
  What \<^verbatim>\<open>request.get_json()\<close> meets, called with its default arguments:
  \<^item> a request whose content type is not JSON; the body is then not looked at;
  \<^item> a request of content type \<^verbatim>\<open>application/json\<close> whose body \<^verbatim>\<open>json.loads\<close> rejects;
  \<^item> a request of content type \<^verbatim>\<open>application/json\<close> and the value its body decodes to.

  A decoded body need not be valid JSON: \<^verbatim>\<open>json.loads\<close> reads \<^verbatim>\<open>NaN\<close>, \<^verbatim>\<open>Infinity\<close>
  and \<^verbatim>\<open>-Infinity\<close> as floats.
\<close>

datatype payload = NotJsonType | Malformed | Decoded json

text \<open>
  The source pins no release of the framework, and the releases differ on a request that
  is not of a JSON content type: \<^verbatim>\<open>get_json\<close> returns \<^verbatim>\<open>None\<close> (Flask 2.0), raises
  \<^verbatim>\<open>BadRequest\<close> (Werkzeug 2.1 and 2.2) or raises \<^verbatim>\<open>UnsupportedMediaType\<close> (Werkzeug 2.3
  and later). A body that fails to decode raises \<^verbatim>\<open>BadRequest\<close> in all of them.
\<close>

datatype mimetype_policy = ReturnsNone | RaisesBadRequest | RaisesUnsupportedMediaType

fun get_json :: "mimetype_policy \<Rightarrow> payload \<Rightarrow> exn + json" where
  "get_json ReturnsNone NotJsonType = Inr JNull"
| "get_json RaisesBadRequest NotJsonType = Inl BadRequest"
| "get_json RaisesUnsupportedMediaType NotJsonType = Inl UnsupportedMediaType"
| "get_json fw Malformed = Inl BadRequest"
| "get_json fw (Decoded v) = Inr v"

text \<open>
  Serialisation by the framework's JSON provider: an \<^verbatim>\<open>ObjectId\<close> is not serialisable
  and raises \<^verbatim>\<open>TypeError\<close>; \<open>None\<close> stands for that.
\<close>

fun dumps_fields :: "document \<Rightarrow> (string \<times> json) list option" where
  "dumps_fields [] = Some []"
| "dumps_fields ((k, Val v) # d) = map_option ((#) (k, v)) (dumps_fields d)"
| "dumps_fields ((k, ObjectId n) # d) = None"

fun dumps_docs :: "document list \<Rightarrow> json list option" where
  "dumps_docs [] = Some []"
| "dumps_docs (d # ds) =
     (case dumps_fields d of
        None \<Rightarrow> None
      | Some kvs \<Rightarrow> map_option ((#) (JObj kvs)) (dumps_docs ds))"

text \<open>A view that returns a dict, alone or with a status code: the dict is serialised.\<close>

definition make_response :: "document \<Rightarrow> nat \<Rightarrow> outcome" where
  "make_response d code =
     (case dumps_fields d of
        None \<Rightarrow> Inl TypeError
      | Some kvs \<Rightarrow> Inr (Response code (JObj kvs)))"

text \<open>\<^verbatim>\<open>jsonify(data)\<close> on a list of dicts: status 200.\<close>

definition jsonify :: "document list \<Rightarrow> outcome" where
  "jsonify ds =
     (case dumps_docs ds of
        None \<Rightarrow> Inl TypeError
      | Some js \<Rightarrow> Inr (Response 200 (JArr js)))"

section \<open>The storage collaborator\<close>

text \<open>
  The collection \<^verbatim>\<open>items\<close>: its documents in insertion order, and the number of
  identifiers handed out so far. The server is taken to be reachable; the limits it
  negotiates with the driver (the size of a document, the depth of nesting) are not
  modelled.
\<close>

record store =
  items :: "document list"
  next_oid :: nat

definition empty_store :: store where
  "empty_store = \<lparr>items = [], next_oid = 0\<rparr>"

text \<open>
  The driver encodes a document to BSON before it sends it, and raises what the encoding
  raises: an integer outside 64 bits is an \<^verbatim>\<open>OverflowError\<close>, a key holding a NUL
  character an \<^verbatim>\<open>InvalidDocument\<close>, a key or a string holding a lone surrogate a
  \<^verbatim>\<open>UnicodeEncodeError\<close>. The first failure in document order wins.
\<close>

fun has_surrogate :: "string \<Rightarrow> bool" where
  "has_surrogate (c # d # t) =
     ((c = CHR 0xED \<and> 0xA0 \<le> (of_char d :: nat) \<and> (of_char d :: nat) \<le> 0xBF) \<or>
      has_surrogate (d # t))"
| "has_surrogate _ = False"

definition key_error :: "string \<Rightarrow> exn option" where
  "key_error k =
     (if CHR 0x00 \<in> set k then Some InvalidDocument
      else if has_surrogate k then Some UnicodeEncodeError
      else None)"

fun bson_error :: "json \<Rightarrow> exn option"
  and bson_list_error :: "json list \<Rightarrow> exn option"
  and bson_dict_error :: "(string \<times> json) list \<Rightarrow> exn option" where
  "bson_error JNull = None"
| "bson_error (JBool b) = None"
| "bson_error (JInt i) = (if - (2 ^ 63) \<le> i \<and> i < 2 ^ 63 then None else Some OverflowError)"
| "bson_error (JFloat x) = None"
| "bson_error (JStr t) = (if has_surrogate t then Some UnicodeEncodeError else None)"
| "bson_error (JArr xs) = bson_list_error xs"
| "bson_error (JObj kvs) = bson_dict_error kvs"
| "bson_list_error [] = None"
| "bson_list_error (x # xs) =
     (case bson_error x of Some e \<Rightarrow> Some e | None \<Rightarrow> bson_list_error xs)"
| "bson_dict_error [] = None"
| "bson_dict_error ((k, v) # kvs) =
     (case key_error k of
        Some e \<Rightarrow> Some e
      | None \<Rightarrow> (case bson_error v of Some e \<Rightarrow> Some e | None \<Rightarrow> bson_dict_error kvs))"

fun encode_error :: "document \<Rightarrow> exn option" where
  "encode_error [] = None"
| "encode_error ((k, f) # d) =
     (case key_error k of
        Some e \<Rightarrow> Some e
      | None \<Rightarrow>
          (case (case f of Val v \<Rightarrow> bson_error v | ObjectId n \<Rightarrow> None) of
             Some e \<Rightarrow> Some e
           | None \<Rightarrow> encode_error d))"

text \<open>The stored form of a top-level document has its \<^verbatim>\<open>_id\<close> first.\<close>

definition bson_order :: "document \<Rightarrow> document" where
  "bson_order d = filter (\<lambda>kv. fst kv = ''_id'') d @ filter (\<lambda>kv. fst kv \<noteq> ''_id'') d"

text \<open>
  \<^verbatim>\<open>items.insert_one(item)\<close>: the driver adds a generated \<^verbatim>\<open>_id\<close> to the dict it is
  given when the dict has none, in place, then encodes and stores the document. When the
  encoding raises, nothing is stored. Otherwise the view keeps using the same dict, so the
  result is the caller's dict as it is after the call, and the collection. (A dict that
  comes with an \<^verbatim>\<open>_id\<close> is stored with it; the views never pass one, and the server's
  duplicate-key check is not modelled.)
\<close>

definition insert_one :: "document \<Rightarrow> store \<Rightarrow> exn + document \<times> store" where
  "insert_one item s =
     (let item' = (if map_of item ''_id'' = None
                   then item @ [(''_id'', ObjectId (next_oid s))]
                   else item)
      in case encode_error (bson_order item') of
           Some e \<Rightarrow> Inl e
         | None \<Rightarrow>
             Inr (item', \<lparr>items = items s @ [bson_order item'], next_oid = Suc (next_oid s)\<rparr>))"

text \<open>
  \<^verbatim>\<open>items.find({}, {key: 0})\<close>: every document, without the field the projection
  excludes.
\<close>

definition find_excluding :: "string \<Rightarrow> store \<Rightarrow> document list" where
  "find_excluding key s = map (filter (\<lambda>kv. fst kv \<noteq> key)) (items s)"

section \<open>The views\<close>

definition health :: "store \<Rightarrow> outcome \<times> store" where
  "health s = (make_response [(''status'', Val (JStr ''ok''))] 200, s)"

definition get_items :: "store \<Rightarrow> outcome \<times> store" where
  "get_items s = (let data = find_excluding ''_id'' s in (jsonify data, s))"

definition add_item :: "mimetype_policy \<Rightarrow> payload \<Rightarrow> store \<Rightarrow> outcome \<times> store" where
  "add_item fw b s =
     (case get_json fw b of
        Inl e \<Rightarrow> (Inl e, s)
      | Inr req \<Rightarrow>
          (case py_get req ''name'' of
             Inl e \<Rightarrow> (Inl e, s)
           | Inr name \<Rightarrow>
               if \<not> truthy name
               then (make_response [(''error'', Val (JStr ''name required''))] 400, s)
               else (let item = [(''name'', Val name)]
                     in case insert_one item s of
                          Inl e \<Rightarrow> (Inl e, s)
                        | Inr (item', s') \<Rightarrow> (make_response item' 201, s'))))"

text \<open>The routes, and a sequence of requests served one after the other.\<close>

datatype request = GetHealthz | GetItems | PostItems payload

fun handle :: "mimetype_policy \<Rightarrow> request \<Rightarrow> store \<Rightarrow> outcome \<times> store" where
  "handle fw GetHealthz s = health s"
| "handle fw GetItems s = get_items s"
| "handle fw (PostItems b) s = add_item fw b s"

fun run :: "mimetype_policy \<Rightarrow> request list \<Rightarrow> store \<Rightarrow> store" where
  "run fw [] s = s"
| "run fw (r # rs) s = run fw rs (snd (handle fw r s))"

section \<open>Configuration\<close>

text \<open>
  The module reads three environment variables when it is imported. The port goes through
  the built-in \<^verbatim>\<open>int\<close>: the default is already an integer, a value from the environment
  is a string that \<^verbatim>\<open>int\<close> parses or rejects with \<^verbatim>\<open>ValueError\<close>. The parser is a
  parameter of the model.
\<close>

record config =
  MONGO_HOST :: string
  MONGO_PORT :: int
  MONGO_DB :: string

definition environ_get :: "(string \<rightharpoonup> string) \<Rightarrow> string \<Rightarrow> string \<Rightarrow> string" where
  "environ_get env key dflt = (case env key of None \<Rightarrow> dflt | Some v \<Rightarrow> v)"

definition load_config :: "(string \<Rightarrow> exn + int) \<Rightarrow> (string \<rightharpoonup> string) \<Rightarrow> exn + config" where
  "load_config int_of_str env =
     (let host = environ_get env ''MONGO_HOST'' ''mongo'' in
      case (case env ''MONGO_PORT'' of None \<Rightarrow> Inr 27017 | Some v \<Rightarrow> int_of_str v) of
        Inl e \<Rightarrow> Inl e
      | Inr port \<Rightarrow>
          Inr \<lparr>MONGO_HOST = host, MONGO_PORT = port,
               MONGO_DB = environ_get env ''MONGO_DB'' ''appdb''\<rparr>)"

text \<open>The decimal text of an integer, as an f-string prints it.\<close>

function digits :: "nat \<Rightarrow> string" where
  "digits n =
     (if n < 10 then [''0123456789'' ! n]
      else digits (n div 10) @ [''0123456789'' ! (n mod 10)])"
  by pat_completeness auto
termination
  by (relation "measure id") auto

declare digits.simps [simp del]

definition str_int :: "int \<Rightarrow> string" where
  "str_int i = (if i < 0 then CHR ''-'' # digits (nat (- i)) else digits (nat i))"

text \<open>
  The connection the module builds: the string handed to \<^verbatim>\<open>MongoClient\<close>, the database
  selected with \<^verbatim>\<open>client[MONGO_DB]\<close> and the collection selected with \<^verbatim>\<open>db["items"]\<close>.
  What the driver makes of the string is its own business.
\<close>

record connection =
  uri :: string
  database :: string
  collection :: string

definition mongo_uri :: "config \<Rightarrow> string" where
  "mongo_uri c = ''mongodb://'' @ MONGO_HOST c @ '':'' @ str_int (MONGO_PORT c) @ ''/''"

definition connect :: "config \<Rightarrow> connection" where
  "connect c = \<lparr>uri = mongo_uri c, database = MONGO_DB c, collection = ''items''\<rparr>"

section \<open>Vocabulary of the properties\<close>

text \<open>The body of the one error the views report themselves, and the specification's sample request.\<close>

definition error_body :: json where
  "error_body = JObj [(''error'', JStr ''name required'')]"

definition widget :: payload where
  "widget = Decoded (JObj [(''name'', JStr ''widget'')])"

text \<open>
  A stored item: the identifier the driver generated and a \<^verbatim>\<open>name\<close>, nothing else.
  \<open>item_json\<close> is the object a client sees for it.
\<close>

fun item_doc :: "document \<Rightarrow> bool" where
  "item_doc [(k, ObjectId n), (k', Val v)] = (k = ''_id'' \<and> k' = ''name'')"
| "item_doc _ = False"

definition name_of :: "document \<Rightarrow> json" where
  "name_of d = (case map_of d ''name'' of Some (Val v) \<Rightarrow> v | _ \<Rightarrow> JNull)"

definition item_json :: "document \<Rightarrow> json" where
  "item_json d = JObj [(''name'', name_of d)]"

definition nonempty_string_name :: "document \<Rightarrow> bool" where
  "nonempty_string_name d =
     (case map_of d ''name'' of Some (Val (JStr n)) \<Rightarrow> n \<noteq> [] | _ \<Rightarrow> False)"

definition truthy_name :: "document \<Rightarrow> bool" where
  "truthy_name d = (item_doc d \<and> truthy (name_of d))"

text \<open>A decoded value that the JSON grammar can write: no \<^verbatim>\<open>NaN\<close>, no infinity.\<close>

fun finite_float :: "pyfloat \<Rightarrow> bool" where
  "finite_float (Finite q) = True"
| "finite_float _ = False"

fun standard_json :: "json \<Rightarrow> bool"
  and standard_list :: "json list \<Rightarrow> bool"
  and standard_dict :: "(string \<times> json) list \<Rightarrow> bool" where
  "standard_json (JFloat x) = finite_float x"
| "standard_json (JArr xs) = standard_list xs"
| "standard_json (JObj kvs) = standard_dict kvs"
| "standard_json JNull = True"
| "standard_json (JBool b) = True"
| "standard_json (JInt i) = True"
| "standard_json (JStr t) = True"
| "standard_list [] = True"
| "standard_list (x # xs) = (standard_json x \<and> standard_list xs)"
| "standard_dict [] = True"
| "standard_dict ((k, v) # kvs) = (standard_json v \<and> standard_dict kvs)"

text \<open>Reading a decimal numeral back, to say what \<open>str_int\<close> prints.\<close>

definition digit_value :: "char \<Rightarrow> nat" where
  "digit_value c = of_char c - 48"

definition decimal_value :: "string \<Rightarrow> nat" where
  "decimal_value ds = foldl (\<lambda>a c. 10 * a + digit_value c) 0 ds"

definition read_int :: "string \<Rightarrow> int" where
  "read_int t =
     (case t of
        [] \<Rightarrow> 0
      | c # ds \<Rightarrow> if c = CHR ''-'' then - int (decimal_value ds) else int (decimal_value t))"

section \<open>Facts about the views\<close>

lemma insert_one_item:
  assumes "bson_error v = None"
  shows "insert_one [(''name'', Val v)] s =
     Inr ([(''name'', Val v), (''_id'', ObjectId (next_oid s))],
          \<lparr>items = items s @ [[(''_id'', ObjectId (next_oid s)), (''name'', Val v)]],
           next_oid = Suc (next_oid s)\<rparr>)"
  using assms by (simp add: insert_one_def bson_order_def key_error_def Let_def)

lemma insert_one_item_error:
  assumes "bson_error v = Some e"
  shows "insert_one [(''name'', Val v)] s = Inl e"
  using assms by (simp add: insert_one_def bson_order_def key_error_def Let_def)

lemma add_item_malformed: "add_item fw Malformed s = (Inl BadRequest, s)"
  by (simp add: add_item_def)

lemma add_item_not_json_type:
  "add_item fw NotJsonType s =
     (Inl (case fw of
             ReturnsNone \<Rightarrow> AttributeError
           | RaisesBadRequest \<Rightarrow> BadRequest
           | RaisesUnsupportedMediaType \<Rightarrow> UnsupportedMediaType), s)"
  by (cases fw) (simp_all add: add_item_def)

text \<open>A decoded body that is not an object (\<^verbatim>\<open>null\<close>, an array, a scalar) has no \<^verbatim>\<open>get\<close>.\<close>

lemma add_item_not_dict:
  "py_get v ''name'' = Inl e \<Longrightarrow> add_item fw (Decoded v) s = (Inl e, s)"
  by (simp add: add_item_def)

lemma add_item_falsy:
  assumes "py_get req ''name'' = Inr v" and "\<not> truthy v"
  shows "add_item fw (Decoded req) s = (Inr (Response 400 error_body), s)"
  using assms by (simp add: add_item_def make_response_def error_body_def)

text \<open>
  The accepting branch for a truthy name that the driver can encode: the document is
  stored, and the dict the view returns is the one \<open>insert_one\<close> has extended with the
  \<^verbatim>\<open>ObjectId\<close>, which does not serialise.
\<close>

lemma add_item_truthy:
  assumes "py_get req ''name'' = Inr v" and "truthy v" and "bson_error v = None"
  shows "add_item fw (Decoded req) s =
     (Inl TypeError,
      \<lparr>items = items s @ [[(''_id'', ObjectId (next_oid s)), (''name'', Val v)]],
       next_oid = Suc (next_oid s)\<rparr>)"
  using assms by (simp add: add_item_def insert_one_item make_response_def)

text \<open>A truthy name that the driver cannot encode: its exception leaves the view, nothing is stored.\<close>

lemma add_item_unencodable:
  assumes "py_get req ''name'' = Inr v" and "truthy v" and "bson_error v = Some e"
  shows "add_item fw (Decoded req) s = (Inl e, s)"
  using assms by (simp add: add_item_def insert_one_item_error)

lemma falsy_values_rejected:
  assumes "v \<in> {JNull, JBool False, JInt 0, JFloat (Finite 0), JStr [], JArr [], JObj []}"
  shows "add_item fw (Decoded (JObj [(''name'', v)])) s = (Inr (Response 400 error_body), s)"
proof -
  have "\<not> truthy v"
    using assms by auto
  then show ?thesis
    by (simp add: add_item_falsy)
qed

lemma item_doc_shape:
  "item_doc d \<Longrightarrow> \<exists>n v. d = [(''_id'', ObjectId n), (''name'', Val v)]"
  by (induction d rule: item_doc.induct) auto

lemma dumps_docs_items:
  "list_all item_doc ds \<Longrightarrow>
     dumps_docs (map (filter (\<lambda>kv. fst kv \<noteq> ''_id'')) ds) = Some (map item_json ds)"
proof (induction ds)
  case Nil
  then show ?case by simp
next
  case (Cons d ds)
  then obtain n v where d: "d = [(''_id'', ObjectId n), (''name'', Val v)]"
    using item_doc_shape by fastforce
  from Cons show ?case
    by (simp add: d item_json_def name_of_def)
qed

lemma dumps_docs_snoc:
  "dumps_docs (ds @ [d]) =
     (case dumps_docs ds of
        None \<Rightarrow> None
      | Some js \<Rightarrow> (case dumps_fields d of None \<Rightarrow> None | Some kvs \<Rightarrow> Some (js @ [JObj kvs])))"
  by (induction ds) (auto split: option.splits)

lemma get_items_item_docs:
  "list_all item_doc (items s) \<Longrightarrow>
     get_items s = (Inr (Response 200 (JArr (map item_json (items s)))), s)"
  by (simp add: get_items_def find_excluding_def jsonify_def dumps_docs_items)

lemma get_items_store: "snd (get_items s) = s"
  by (simp add: get_items_def)

lemma health_store: "snd (health s) = s"
  by (simp add: health_def)

text \<open>A request leaves the collection alone or appends one item with a truthy name.\<close>

lemma add_item_items:
  "items (snd (add_item fw b s)) = items s \<or>
   (\<exists>v. truthy v \<and>
      items (snd (add_item fw b s)) =
        items s @ [[(''_id'', ObjectId (next_oid s)), (''name'', Val v)]])"
proof (cases "get_json fw b")
  case (Inl e)
  then show ?thesis by (simp add: add_item_def)
next
  case req: (Inr req)
  show ?thesis
  proof (cases "py_get req ''name''")
    case (Inl e)
    with req show ?thesis by (simp add: add_item_def)
  next
    case (Inr v)
    show ?thesis
    proof (cases "truthy v")
      case False
      with req Inr show ?thesis by (simp add: add_item_def)
    next
      case True
      show ?thesis
      proof (cases "bson_error v")
        case None
        with req Inr True show ?thesis
          by (auto simp: add_item_def insert_one_item)
      next
        case (Some e)
        with req Inr True show ?thesis
          by (simp add: add_item_def insert_one_item_error)
      qed
    qed
  qed
qed

lemma handle_items:
  "items (snd (handle fw r s)) = items s \<or>
   (\<exists>v. truthy v \<and>
      items (snd (handle fw r s)) =
        items s @ [[(''_id'', ObjectId (next_oid s)), (''name'', Val v)]])"
  by (cases r) (simp_all add: health_store get_items_store add_item_items)

lemma handle_truthy_names:
  assumes "list_all truthy_name (items s)"
  shows "list_all truthy_name (items (snd (handle fw r s)))"
  using handle_items [of fw r s] assms
  by (auto simp: truthy_name_def name_of_def)

lemma run_truthy_names:
  "list_all truthy_name (items s) \<Longrightarrow> list_all truthy_name (items (run fw rs s))"
  by (induction rs arbitrary: s) (simp_all add: handle_truthy_names)

text \<open>Every store the service reaches from the empty one holds items only.\<close>

lemma reachable_item_docs: "list_all item_doc (items (run fw rs empty_store))"
proof -
  have "list_all truthy_name (items (run fw rs empty_store))"
    by (rule run_truthy_names) (simp add: empty_store_def)
  then show ?thesis
    by (simp add: list_all_iff truthy_name_def)
qed

lemma reachable_listing:
  "fst (get_items (run fw rs empty_store)) =
     Inr (Response 200 (JArr (map item_json (items (run fw rs empty_store)))))"
  by (simp add: get_items_item_docs reachable_item_docs)

text \<open>What a listing shows after a create request with a truthy name, in any store of items.\<close>

lemma post_then_get_includes:
  assumes "list_all item_doc (items s)" and "py_get req ''name'' = Inr v" and "truthy v"
    and "bson_error v = None"
  shows "fst (get_items (snd (add_item fw (Decoded req) s))) =
           Inr (Response 200 (JArr (map item_json (items s) @ [JObj [(''name'', v)]])))"
  using assms
  by (simp add: add_item_truthy get_items_item_docs item_json_def name_of_def)

text \<open>Names the driver refuses: nothing is stored and its exception is the outcome.\<close>

lemma unencodable_examples:
  "add_item fw (Decoded (JObj [(''name'', JInt (2 ^ 63))])) s = (Inl OverflowError, s)"
  "add_item fw (Decoded (JObj [(''name'', JObj [([CHR 0x00], JInt 1)])])) s =
     (Inl InvalidDocument, s)"
  "add_item fw (Decoded (JObj [(''name'', JStr [CHR 0xED, CHR 0xA0, CHR 0x80])])) s =
     (Inl UnicodeEncodeError, s)"
  by (simp_all add: add_item_def insert_one_item_error key_error_def)

lemma load_config_port_error:
  "env ''MONGO_PORT'' = Some v \<Longrightarrow> int_of_str v = Inl e \<Longrightarrow> load_config int_of_str env = Inl e"
  by (simp add: load_config_def)

lemma default_uri:
  "mongo_uri \<lparr>MONGO_HOST = ''mongo'', MONGO_PORT = 27017, MONGO_DB = d\<rparr> =
     ''mongodb://mongo:27017/''"
  by (simp add: mongo_uri_def str_int_def digits.simps)

text \<open>\<open>str_int\<close> prints the decimal numeral of its argument.\<close>

lemma digit_value_nth: "k < 10 \<Longrightarrow> digit_value (''0123456789'' ! k) = k"
proof -
  assume "k < 10"
  then have "k \<in> {0, 1, 2, 3, 4, 5, 6, 7, 8, 9}" by auto
  then show ?thesis by (auto simp: digit_value_def)
qed

lemma decimal_value_snoc:
  "decimal_value (ds @ [c]) = 10 * decimal_value ds + digit_value c"
  by (simp add: decimal_value_def)

lemma decimal_value_digits: "decimal_value (digits n) = n"
proof (induction n rule: digits.induct)
  case (1 n)
  show ?case
  proof (cases "n < 10")
    case True
    then show ?thesis
      by (subst digits.simps) (simp add: decimal_value_def digit_value_nth)
  next
    case False
    with 1 show ?thesis
      by (subst digits.simps) (simp add: decimal_value_snoc digit_value_nth)
  qed
qed

lemma digits_not_minus: "digits n \<noteq> [] \<and> hd (digits n) \<noteq> CHR ''-''"
proof (induction n rule: digits.induct)
  case (1 n)
  show ?case
  proof (cases "n < 10")
    case True
    then have "n \<in> {0, 1, 2, 3, 4, 5, 6, 7, 8, 9}" by auto
    then show ?thesis
      by (subst (1 2) digits.simps) auto
  next
    case False
    with 1 show ?thesis
      by (subst (1 2) digits.simps) simp
  qed
qed

lemma read_int_str_int: "read_int (str_int i) = i"
proof (cases "i < 0")
  case True
  then show ?thesis
    by (simp add: read_int_def str_int_def decimal_value_digits)
next
  case False
  obtain c ds where cd: "digits (nat i) = c # ds" "c \<noteq> CHR ''-''"
    using digits_not_minus [of "nat i"] by (cases "digits (nat i)") auto
  have "decimal_value (c # ds) = nat i"
    using decimal_value_digits [of "nat i"] cd by simp
  with False cd show ?thesis
    by (simp add: read_int_def str_int_def)
qed


section \<open>Create item\<close>

text \<open>
  C1: a \<^verbatim>\<open>POST /items\<close> whose body has a non-empty \<^verbatim>\<open>name\<close> should persist the item
  and answer 201 with exactly \<^verbatim>\<open>{"name": <value>}\<close>. For \<^verbatim>\<open>{"name": "widget"}\<close> on the
  empty store the view persists the item, but the dict it returns has received the
  generated \<^verbatim>\<open>_id\<close> from \<^verbatim>\<open>insert_one\<close>, serialising it raises \<^verbatim>\<open>TypeError\<close>, and the
  client is answered 500.
\<close>

theorem create_item_response_raises:
  "fst (add_item fw widget empty_store) = Inl TypeError \<and>
   http_status (fst (add_item fw widget empty_store)) = 500 \<and>
   items (snd (add_item fw widget empty_store)) =
     [[(''_id'', ObjectId 0), (''name'', Val (JStr ''widget''))]]"
  by (simp add: widget_def add_item_def insert_one_item make_response_def empty_store_def)

text \<open>
  C2, as stated: every JSON body that lacks a \<^verbatim>\<open>name\<close> field is answered 400 with
  \<^verbatim>\<open>{"error": "name required"}\<close>. The body \<^verbatim>\<open>null\<close> has no \<^verbatim>\<open>name\<close> and no \<^verbatim>\<open>get\<close>
  either: the view raises \<^verbatim>\<open>AttributeError\<close> and the client is answered 500. A body
  sent without a JSON content type does not reach the check at all.
\<close>

theorem missing_name_counterexample:
  "add_item RaisesUnsupportedMediaType (Decoded JNull) empty_store =
     (Inl AttributeError, empty_store) \<and>
   http_status (fst (add_item RaisesUnsupportedMediaType (Decoded JNull) empty_store)) = 500 \<and>
   add_item RaisesUnsupportedMediaType (Decoded (JArr [])) empty_store =
     (Inl AttributeError, empty_store) \<and>
   add_item RaisesUnsupportedMediaType NotJsonType empty_store =
     (Inl UnsupportedMediaType, empty_store)"
  by (simp add: add_item_def)

text \<open>
  C2, amended: a \<^verbatim>\<open>POST /items\<close> sent as \<^verbatim>\<open>application/json\<close> whose body decodes to a
  JSON object that lacks \<^verbatim>\<open>name\<close>, or has the empty string there, is answered 400 with
  \<^verbatim>\<open>{"error": "name required"}\<close>, and the store is unchanged.
\<close>

theorem missing_name_rejected:
  assumes "map_of kvs ''name'' = None \<or> map_of kvs ''name'' = Some (JStr [])"
  shows "add_item fw (Decoded (JObj kvs)) s = (Inr (Response 400 error_body), s)"
  using assms by (auto simp: add_item_def make_response_def error_body_def)

theorem missing_name_rejected_witness:
  "add_item ReturnsNone (Decoded (JObj [])) empty_store =
     (Inr (Response 400 (JObj [(''error'', JStr ''name required'')])), empty_store) \<and>
   add_item RaisesUnsupportedMediaType (Decoded (JObj [(''name'', JStr [])])) empty_store =
     (Inr (Response 400 (JObj [(''error'', JStr ''name required'')])), empty_store)"
  using missing_name_rejected [of "[]" ReturnsNone empty_store]
    missing_name_rejected [of "[(''name'', JStr [])]" RaisesUnsupportedMediaType empty_store]
  by (simp add: error_body_def)

text \<open>
  C3, as stated: a body that is not valid JSON is answered 400 with
  \<^verbatim>\<open>{"error": "name required"}\<close>, and nothing is persisted. A body that the decoder
  rejects is answered by the framework, not by the view; \<^verbatim>\<open>{"name": NaN}\<close> is not valid
  JSON, is decoded all the same, and is persisted; without a JSON content type the answer
  is not even 400 in the current framework.
\<close>

theorem malformed_body_counterexample:
  "fst (add_item RaisesUnsupportedMediaType Malformed empty_store) = Inl BadRequest \<and>
   fst (add_item RaisesUnsupportedMediaType Malformed empty_store) \<noteq>
     Inr (Response 400 error_body) \<and>
   \<not> standard_json (JObj [(''name'', JFloat NaN)]) \<and>
   items (snd (add_item RaisesUnsupportedMediaType
                 (Decoded (JObj [(''name'', JFloat NaN)])) empty_store)) =
     [[(''_id'', ObjectId 0), (''name'', Val (JFloat NaN))]] \<and>
   http_status (fst (add_item RaisesUnsupportedMediaType NotJsonType empty_store)) = 415"
  by (simp add: add_item_def insert_one_item make_response_def empty_store_def)

text \<open>
  C3, amended: for a \<^verbatim>\<open>POST /items\<close> sent as \<^verbatim>\<open>application/json\<close> whose body the JSON
  decoder rejects, \<^verbatim>\<open>request.get_json()\<close> raises \<^verbatim>\<open>BadRequest\<close>, which the view does not
  catch: the client is answered 400 by the framework, without the view's error body, and
  no item is persisted. A request that is not of a JSON content type gets no response of
  the view either and persists nothing: depending on the framework's release the
  exception is \<^verbatim>\<open>UnsupportedMediaType\<close> (415), \<^verbatim>\<open>BadRequest\<close> (400), or the
  \<^verbatim>\<open>AttributeError\<close> (500) of calling \<^verbatim>\<open>get\<close> on \<^verbatim>\<open>None\<close>.
\<close>

theorem undecodable_body_raises:
  "add_item fw Malformed s = (Inl BadRequest, s) \<and>
   http_status (fst (add_item fw Malformed s)) = 400 \<and>
   add_item RaisesUnsupportedMediaType NotJsonType s = (Inl UnsupportedMediaType, s) \<and>
   http_status (fst (add_item RaisesUnsupportedMediaType NotJsonType s)) = 415 \<and>
   add_item RaisesBadRequest NotJsonType s = (Inl BadRequest, s) \<and>
   http_status (fst (add_item RaisesBadRequest NotJsonType s)) = 400 \<and>
   add_item ReturnsNone NotJsonType s = (Inl AttributeError, s) \<and>
   http_status (fst (add_item ReturnsNone NotJsonType s)) = 500"
  by (simp add: add_item_def)

section \<open>List items\<close>

text \<open>
  C4: \<^verbatim>\<open>GET /items\<close> on a store of items answers 200 with an array of one object per
  item, in which only \<^verbatim>\<open>name\<close> appears; on an empty collection the array is empty.
\<close>

theorem list_items_names_only:
  assumes "list_all item_doc (items s)"
  shows "get_items s = (Inr (Response 200 (JArr (map item_json (items s)))), s) \<and>
         (items s = [] \<longrightarrow> fst (get_items s) = Inr (Response 200 (JArr [])))"
  using assms by (simp add: get_items_def find_excluding_def jsonify_def dumps_docs_items)

theorem list_items_names_only_witness:
  "fst (get_items empty_store) = Inr (Response 200 (JArr [])) \<and>
   get_items \<lparr>items = [[(''_id'', ObjectId 0), (''name'', Val (JStr ''widget''))],
                       [(''_id'', ObjectId 1), (''name'', Val (JStr ''gadget''))]],
              next_oid = 2\<rparr> =
     (Inr (Response 200 (JArr [JObj [(''name'', JStr ''widget'')],
                               JObj [(''name'', JStr ''gadget'')]])),
      \<lparr>items = [[(''_id'', ObjectId 0), (''name'', Val (JStr ''widget''))],
                [(''_id'', ObjectId 1), (''name'', Val (JStr ''gadget''))]],
       next_oid = 2\<rparr>)"
  using list_items_names_only [of empty_store]
    list_items_names_only
      [of "\<lparr>items = [[(''_id'', ObjectId 0), (''name'', Val (JStr ''widget''))],
                      [(''_id'', ObjectId 1), (''name'', Val (JStr ''gadget''))]],
             next_oid = 2\<rparr>"]
  by (simp add: empty_store_def item_json_def name_of_def)

section \<open>Health check\<close>

text \<open>
  C5: \<^verbatim>\<open>GET /healthz\<close> answers 200 with body \<^verbatim>\<open>{"status": "ok"}\<close> in every storage
  state, and leaves the store as it was.
\<close>

theorem health_ok:
  "health s = (Inr (Response 200 (JObj [(''status'', JStr ''ok'')])), s)"
  by (simp add: health_def make_response_def)

section \<open>The invariant of the store\<close>

text \<open>
  C6, as stated: from the empty store, every stored item has a non-empty string as its
  \<^verbatim>\<open>name\<close>. A create request with the name \<^verbatim>\<open>5\<close> stores an item whose name is a number.
\<close>

theorem string_name_invariant_counterexample:
  "\<not> list_all nonempty_string_name
       (items (run RaisesUnsupportedMediaType
                 [PostItems (Decoded (JObj [(''name'', JInt 5)]))] empty_store))"
  by (simp add: add_item_def insert_one_item make_response_def empty_store_def
      nonempty_string_name_def)

text \<open>
  C6, amended: from the empty store, after any sequence of requests, every stored item
  consists of its identifier and a \<^verbatim>\<open>name\<close>, and the name is a truthy JSON value: never
  the empty string, but not necessarily a string.
\<close>

theorem truthy_name_invariant:
  "list_all truthy_name (items (run fw rs empty_store))"
  by (rule run_truthy_names) (simp add: empty_store_def)

theorem truthy_name_invariant_witness:
  "list_all truthy_name
     (items (run RaisesUnsupportedMediaType
               [PostItems widget, GetItems, PostItems (Decoded (JObj [])),
                PostItems (Decoded (JObj [(''name'', JInt 5)])), GetHealthz] empty_store)) \<and>
   items (run RaisesUnsupportedMediaType
            [PostItems widget, GetItems, PostItems (Decoded (JObj [])),
             PostItems (Decoded (JObj [(''name'', JInt 5)])), GetHealthz] empty_store) =
     [[(''_id'', ObjectId 0), (''name'', Val (JStr ''widget''))],
      [(''_id'', ObjectId 1), (''name'', Val (JInt 5))]]"
  using truthy_name_invariant
    [of RaisesUnsupportedMediaType
        "[PostItems widget, GetItems, PostItems (Decoded (JObj [])),
          PostItems (Decoded (JObj [(''name'', JInt 5)])), GetHealthz]"]
  by (simp add: widget_def add_item_def insert_one_item make_response_def empty_store_def
      get_items_def health_def)

section \<open>Round trip and repeated reads\<close>

text \<open>
  C7: in every store whose listing succeeds, after a create request for
  \<^verbatim>\<open>{"name": "widget"}\<close> the listing answers 200 with the array it gave before, followed
  by \<^verbatim>\<open>{"name": "widget"}\<close>. The statement does not rest on what the create request
  answered.
\<close>

theorem round_trip_widget:
  assumes "fst (get_items s) = Inr (Response 200 (JArr js))"
  shows "fst (get_items (snd (add_item fw widget s))) =
           Inr (Response 200 (JArr (js @ [JObj [(''name'', JStr ''widget'')]])))"
proof -
  have stored: "snd (add_item fw widget s) =
      \<lparr>items = items s @ [[(''_id'', ObjectId (next_oid s)), (''name'', Val (JStr ''widget''))]],
       next_oid = Suc (next_oid s)\<rparr>"
    by (simp add: widget_def add_item_truthy)
  from assms have before: "dumps_docs (map (filter (\<lambda>kv. fst kv \<noteq> ''_id'')) (items s)) = Some js"
    by (auto simp: get_items_def find_excluding_def jsonify_def split: option.splits)
  show ?thesis
    by (simp add: stored get_items_def find_excluding_def jsonify_def dumps_docs_snoc before)
qed

theorem round_trip_widget_witness:
  "fst (get_items \<lparr>items = [[(''_id'', ObjectId 0), (''name'', Val (JStr ''gadget''))]],
                   next_oid = 1\<rparr>) =
     Inr (Response 200 (JArr [JObj [(''name'', JStr ''gadget'')]])) \<and>
   fst (get_items (snd (add_item RaisesUnsupportedMediaType widget
          \<lparr>items = [[(''_id'', ObjectId 0), (''name'', Val (JStr ''gadget''))]],
           next_oid = 1\<rparr>))) =
     Inr (Response 200 (JArr [JObj [(''name'', JStr ''gadget'')],
                              JObj [(''name'', JStr ''widget'')]]))"
proof -
  have before:
    "fst (get_items \<lparr>items = [[(''_id'', ObjectId 0), (''name'', Val (JStr ''gadget''))]],
                     next_oid = 1\<rparr>) =
       Inr (Response 200 (JArr [JObj [(''name'', JStr ''gadget'')]]))"
    by (simp add: get_items_def find_excluding_def jsonify_def)
  show ?thesis
    using before round_trip_widget [OF before, of RaisesUnsupportedMediaType] by simp
qed

text \<open>
  C8: two \<^verbatim>\<open>GET /items\<close> in a row give the same response, and neither changes the
  store.
\<close>

theorem list_items_idempotent:
  "snd (get_items s) = s \<and> get_items (snd (get_items s)) = get_items s"
  by (simp add: get_items_def)

section \<open>Configuration defaults\<close>

text \<open>
  C9: each of host, port and database name is \<^verbatim>\<open>mongo\<close>, 27017 and \<^verbatim>\<open>appdb\<close> when its
  variable is unset and the variable's value when it is set, the port being what \<^verbatim>\<open>int\<close>
  reads from it. The connection is built from exactly these: the string handed to the
  client is \<^verbatim>\<open>mongodb://\<close>, the host, a colon, the decimal numeral of the port and a
  slash, and the database selected is the database name. With nothing set the string is
  \<^verbatim>\<open>mongodb://mongo:27017/\<close> and the database \<^verbatim>\<open>appdb\<close>.
\<close>

theorem config_from_environment:
  assumes "env ''MONGO_PORT'' = None \<or>
           (\<exists>v. env ''MONGO_PORT'' = Some v \<and> int_of_str v = Inr p)"
  shows "\<exists>c. load_config int_of_str env = Inr c \<and>
           (env ''MONGO_HOST'' = None \<longrightarrow> MONGO_HOST c = ''mongo'') \<and>
           (\<forall>h. env ''MONGO_HOST'' = Some h \<longrightarrow> MONGO_HOST c = h) \<and>
           (env ''MONGO_PORT'' = None \<longrightarrow> MONGO_PORT c = 27017) \<and>
           (env ''MONGO_PORT'' \<noteq> None \<longrightarrow> MONGO_PORT c = p) \<and>
           (env ''MONGO_DB'' = None \<longrightarrow> MONGO_DB c = ''appdb'') \<and>
           (\<forall>d. env ''MONGO_DB'' = Some d \<longrightarrow> MONGO_DB c = d) \<and>
           (\<exists>ds. uri (connect c) = ''mongodb://'' @ MONGO_HOST c @ '':'' @ ds @ ''/'' \<and>
                 read_int ds = MONGO_PORT c) \<and>
           database (connect c) = MONGO_DB c \<and>
           collection (connect c) = ''items'' \<and>
           (env ''MONGO_HOST'' = None \<and> env ''MONGO_PORT'' = None \<longrightarrow>
              uri (connect c) = ''mongodb://mongo:27017/'')"
proof -
  define n where "n = (case env ''MONGO_PORT'' of None \<Rightarrow> 27017 | Some v \<Rightarrow> p)"
  define c where "c = \<lparr>MONGO_HOST = environ_get env ''MONGO_HOST'' ''mongo'', MONGO_PORT = n,
                       MONGO_DB = environ_get env ''MONGO_DB'' ''appdb''\<rparr>"
  have port: "(case env ''MONGO_PORT'' of None \<Rightarrow> Inr 27017 | Some v \<Rightarrow> int_of_str v) = Inr n"
    using assms by (auto simp: n_def)
  have loaded: "load_config int_of_str env = Inr c"
    by (simp add: load_config_def port c_def)
  have host: "(env ''MONGO_HOST'' = None \<longrightarrow> MONGO_HOST c = ''mongo'') \<and>
              (\<forall>h. env ''MONGO_HOST'' = Some h \<longrightarrow> MONGO_HOST c = h)"
    by (simp add: c_def environ_get_def)
  have portv: "(env ''MONGO_PORT'' = None \<longrightarrow> MONGO_PORT c = 27017) \<and>
               (env ''MONGO_PORT'' \<noteq> None \<longrightarrow> MONGO_PORT c = p)"
    by (auto simp: c_def n_def)
  have db: "(env ''MONGO_DB'' = None \<longrightarrow> MONGO_DB c = ''appdb'') \<and>
            (\<forall>d. env ''MONGO_DB'' = Some d \<longrightarrow> MONGO_DB c = d)"
    by (simp add: c_def environ_get_def)
  have "uri (connect c) = ''mongodb://'' @ MONGO_HOST c @ '':'' @ str_int (MONGO_PORT c) @ ''/''"
    by (simp add: connect_def mongo_uri_def)
  then have numeral:
    "\<exists>ds. uri (connect c) = ''mongodb://'' @ MONGO_HOST c @ '':'' @ ds @ ''/'' \<and>
          read_int ds = MONGO_PORT c"
    using read_int_str_int [of "MONGO_PORT c"] by (intro exI conjI)
  have conn: "database (connect c) = MONGO_DB c \<and> collection (connect c) = ''items''"
    by (simp add: connect_def)
  have default: "env ''MONGO_HOST'' = None \<and> env ''MONGO_PORT'' = None \<longrightarrow>
                   uri (connect c) = ''mongodb://mongo:27017/''"
    by (simp add: connect_def c_def n_def environ_get_def default_uri)
  show ?thesis
    by (intro exI [of _ c] conjI loaded host [THEN conjunct1] host [THEN conjunct2]
        portv [THEN conjunct1] portv [THEN conjunct2] db [THEN conjunct1] db [THEN conjunct2]
        numeral conn [THEN conjunct1] conn [THEN conjunct2] default)
qed

theorem config_from_environment_witness:
  "map_sum id connect
     (load_config (\<lambda>v. if v = ''27018'' then Inr 27018 else Inl ValueError) Map.empty) =
     Inr \<lparr>uri = ''mongodb://mongo:27017/'', database = ''appdb'', collection = ''items''\<rparr> \<and>
   map_sum id connect
     (load_config (\<lambda>v. if v = ''27018'' then Inr 27018 else Inl ValueError)
        [''MONGO_HOST'' \<mapsto> ''db.internal'', ''MONGO_PORT'' \<mapsto> ''27018'', ''MONGO_DB'' \<mapsto> ''shop'']) =
     Inr \<lparr>uri = ''mongodb://db.internal:27018/'', database = ''shop'', collection = ''items''\<rparr>"
  using config_from_environment
      [of Map.empty "\<lambda>v. if v = ''27018'' then Inr 27018 else Inl ValueError" 0]
    config_from_environment
      [of "[''MONGO_HOST'' \<mapsto> ''db.internal'', ''MONGO_PORT'' \<mapsto> ''27018'',
            ''MONGO_DB'' \<mapsto> ''shop'']"
          "\<lambda>v. if v = ''27018'' then Inr 27018 else Inl ValueError" 27018]
  by (simp add: load_config_def environ_get_def connect_def mongo_uri_def str_int_def
      digits.simps)

section \<open>Truthiness of the name\<close>

text \<open>
  C10: the check on \<^verbatim>\<open>name\<close> is Python truthiness: a falsy value of any JSON type is
  answered 400 (\<open>falsy_values_rejected\<close>), and a truthy value that is not a string should
  be persisted and answered 201. For \<^verbatim>\<open>{"name": 5}\<close> on the empty store the item is
  persisted with the number as its name, but the response ends in \<^verbatim>\<open>TypeError\<close>.
\<close>

theorem truthy_number_post_raises:
  "add_item fw (Decoded (JObj [(''name'', JInt 5)])) empty_store =
     (Inl TypeError,
      \<lparr>items = [[(''_id'', ObjectId 0), (''name'', Val (JInt 5))]], next_oid = 1\<rparr>)"
  by (simp add: add_item_def insert_one_item make_response_def empty_store_def)

end
